theory Spec2Isabelle
  imports Complex_Main "HOL-Library.Log_Nat"
begin

section \<open>Configuration provider (config/settings.py)\<close>

text \<open>
  A Python \<open>str\<close> is modelled as a HOL \<open>string\<close>: a list of characters whose code
  points are below 256.  The fields of \<open>Settings\<close> are loaded from the environment, so a
  value of the record below stands for any loaded configuration; \<open>default_settings\<close> holds
  the declared defaults.  Only the fields read by the modelled code are kept.
\<close>

text \<open>
  A \<open>pathlib\<close> path is kept as the expression that built it: \<open>Div p s\<close> is \<open>p / s\<close> and
  \<open>Parent p\<close> is \<open>p.parent\<close>.
\<close>

datatype path = ProjectRoot | Div path string | Parent path

record Settings =
  base_url :: string
  standard_user :: string
  locked_user :: string
  problem_user :: string
  performance_user :: string
  error_user :: string
  visual_user :: string
  default_password :: string
  timeout :: int
  viewport_width :: int
  viewport_height :: int
  screenshot_on_failure :: bool
  video_on_failure :: bool
  trace_on_failure :: bool
  screenshot_dir :: string
  locale_name :: string

definition default_settings :: Settings where
  "default_settings =
     \<lparr> base_url = ''https://www.saucedemo.com'',
       standard_user = ''standard_user'',
       locked_user = ''locked_out_user'',
       problem_user = ''problem_user'',
       performance_user = ''performance_glitch_user'',
       error_user = ''error_user'',
       visual_user = ''visual_user'',
       default_password = ''secret_sauce'',
       timeout = 30000,
       viewport_width = 1920,
       viewport_height = 1080,
       screenshot_on_failure = True,
       video_on_failure = True,
       trace_on_failure = True,
       screenshot_dir = ''screenshots'',
       locale_name = ''en_US'' \<rparr>"

text \<open>\<open>dict.get(key, default)\<close> on a dictionary literal, kept as an association list.\<close>

definition dict_get :: "('k \<times> 'v) list \<Rightarrow> 'k \<Rightarrow> 'v \<Rightarrow> 'v" where
  "dict_get d k dflt = (case map_of d k of None \<Rightarrow> dflt | Some v \<Rightarrow> v)"

definition user_map :: "Settings \<Rightarrow> (string \<times> string) list" where
  "user_map s =
     [ (''standard'', standard_user s),
       (''locked'', locked_user s),
       (''problem'', problem_user s),
       (''performance'', performance_user s),
       (''error'', error_user s),
       (''visual'', visual_user s) ]"


definition get_user_credentials :: "Settings \<Rightarrow> string \<Rightarrow> string \<times> string" where
  "get_user_credentials s user_type =
     (let username = dict_get (user_map s) user_type (standard_user s)
      in (username, default_password s))"

section \<open>Test data records (utils/test_data.py)\<close>

record UserCredentials =
  username :: string
  password :: string
  user_type :: string

record CheckoutData =
  first_name :: string
  last_name :: string
  postal_code :: string

definition tdg_get_user_credentials :: "Settings \<Rightarrow> string \<Rightarrow> UserCredentials" where
  "tdg_get_user_credentials s ut =
     (case get_user_credentials s ut of
        (u, p) \<Rightarrow> \<lparr> username = u, password = p, user_type = ut \<rparr>)"

definition get_all_user_types :: "string list" where
  "get_all_user_types =
     [''standard'', ''locked'', ''problem'', ''performance'', ''error'', ''visual'']"

section \<open>Python strings\<close>

text \<open>
  \<open>str.lower()\<close> on code points below 256: the ASCII capitals and the Latin-1 capitals
  (\<open>0xC0\<close> to \<open>0xDE\<close> without the multiplication sign \<open>0xD7\<close>) move up by 32, every
  other character is kept.
\<close>

definition lower_char :: "char \<Rightarrow> char" where
  "lower_char c =
     (let n = (of_char c :: nat)
      in if (65 \<le> n \<and> n \<le> 90) \<or> (192 \<le> n \<and> n \<le> 222 \<and> n \<noteq> 215)
         then char_of (n + 32) else c)"

definition str_lower :: "string \<Rightarrow> string" where
  "str_lower s = map lower_char s"

text \<open>
  \<open>s.replace(old, new)\<close>: the occurrences of \<open>old\<close> are replaced from the left, without
  overlap; an empty \<open>old\<close> matches before every character and at the end.
\<close>

function str_replace :: "string \<Rightarrow> string \<Rightarrow> string \<Rightarrow> string" where
  "str_replace old new [] = (if old = [] then new else [])"
| "str_replace old new (c # cs) =
     (if old = [] then new @ c # str_replace old new cs
      else if take (length old) (c # cs) = old
           then new @ str_replace old new (drop (length old) (c # cs))
           else c # str_replace old new cs)"
  by pat_completeness auto
termination
  by (relation "measure (\<lambda>(old, new, s). length s)") auto

section \<open>Exceptions, driver calls and actions\<close>

text \<open>
  The exceptions that the modelled code can meet, all of them instances of \<open>Exception\<close>:
  the driver's timeout and its other errors and the operating system's errors carry their
  message; \<open>ValueError\<close> comes from \<open>float()\<close> and \<open>int()\<close>, \<open>IndexError\<close> from list
  indexing.
\<close>

datatype exn =
    TimeoutError string
  | PlaywrightError string
  | OSError string
  | ValueError
  | IndexError

text \<open>\<open>xs[i]\<close> on a Python list: a negative index counts from the end.\<close>

definition py_getitem :: "'a list \<Rightarrow> int \<Rightarrow> exn + 'a" where
  "py_getitem xs i =
     (if 0 \<le> i \<and> i < int (length xs) then Inr (xs ! nat i)
      else if i < 0 \<and> - int (length xs) \<le> i then Inr (xs ! nat (int (length xs) + i))
      else Inl IndexError)"

text \<open>
  \<open>s.split(sep)\<close>: the pieces of \<open>s\<close> between the occurrences of \<open>sep\<close>, found from
  the left without overlap; an empty separator raises \<open>ValueError\<close>.  \<open>split_pieces\<close>
  carries the piece that is being read, in reverse.
\<close>

function split_pieces :: "string \<Rightarrow> string \<Rightarrow> string \<Rightarrow> string list" where
  "split_pieces sep cur [] = [rev cur]"
| "split_pieces sep cur (c # cs) =
     (if sep \<noteq> [] \<and> take (length sep) (c # cs) = sep
      then rev cur # split_pieces sep [] (drop (length sep) (c # cs))
      else split_pieces sep (c # cur) cs)"
  by pat_completeness auto
termination
  by (relation "measure (\<lambda>(sep, cur, s). length s)") auto

definition str_split :: "string \<Rightarrow> string \<Rightarrow> exn + string list" where
  "str_split s sep = (if sep = [] then Inl ValueError else Inr (split_pieces sep [] s))"

datatype level = DEBUG | INFO | WARNING

text \<open>The parts of an f-string: literal text and strings, integers, paths, exceptions.\<close>

datatype frag = Str string | Num int | PathF path | Exc exn

datatype locator = Nth string nat

text \<open>
  Every call that leaves the modelled code is recorded: a log record (logger name, level,
  message) or a call of the browser driver with its arguments.
\<close>

datatype call =
    Log string level "frag list"
  | PageClick string int
  | PageSelectOption string string
  | WaitFor string string int
  | TextContent string int
  | AllTextContents string
  | LocatorAll string
  | LocatorClick locator
  | PathMkdir path
  | PageScreenshot path
  | PageClose
  | NewContext int int "string option"
  | NewPage
  | TracingStart bool bool bool
  | TracingStop string
  | ContextClose

fun is_log :: "call \<Rightarrow> bool" where
  "is_log (Log n l m) = True"
| "is_log c = False"

text \<open>
  The Playwright \<open>Page\<close> as the code sees it at the time of a call: what each driver call
  answers.  Calls that wait for an element (\<open>click\<close>, \<open>wait_for\<close>, \<open>text_content\<close>,
  \<open>select_option\<close>) can raise; the immediate reads (\<open>all_text_contents\<close>, \<open>all\<close>)
  answer with what the page holds, possibly nothing.
\<close>

record Page =
  click_result :: "string \<Rightarrow> int \<Rightarrow> exn + unit"
  select_option_result :: "string \<Rightarrow> string \<Rightarrow> exn + unit"
  wait_for_result :: "string \<Rightarrow> string \<Rightarrow> int \<Rightarrow> exn + unit"
  text_content_result :: "string \<Rightarrow> int \<Rightarrow> exn + string option"
  all_text_contents_result :: "string \<Rightarrow> string list"
  count_result :: "string \<Rightarrow> nat"
  locator_click_result :: "locator \<Rightarrow> exn + unit"

text \<open>
  An action runs on the object \<open>self\<close>; it returns a value or raises, gives back the
  object as the action left it, and lists the calls it made, in order.
\<close>

type_synonym ('s, 'a) action = "'s \<Rightarrow> (exn + 'a) \<times> 's \<times> call list"

definition ret :: "'a \<Rightarrow> ('s, 'a) action" where
  "ret x self = (Inr x, self, [])"

definition lift :: "exn + 'a \<Rightarrow> ('s, 'a) action" where
  "lift r self = (r, self, [])"

definition seq :: "('s, 'a) action \<Rightarrow> ('a \<Rightarrow> ('s, 'b) action) \<Rightarrow> ('s, 'b) action" where
  "seq m f self =
     (case m self of
        (Inl e, self', cs) \<Rightarrow> (Inl e, self', cs)
      | (Inr x, self', cs) \<Rightarrow>
          (case f x self' of (r, self'', cs') \<Rightarrow> (r, self'', cs @ cs')))"

definition try_except :: "('s, 'a) action \<Rightarrow> (exn \<Rightarrow> ('s, 'a) action) \<Rightarrow> ('s, 'a) action" where
  "try_except m h self =
     (case m self of
        (Inl e, self', cs) \<Rightarrow>
          (case h e self' of (r, self'', cs') \<Rightarrow> (r, self'', cs @ cs'))
      | (Inr x, self', cs) \<Rightarrow> (Inr x, self', cs))"

fun map_action :: "('a \<Rightarrow> ('s, 'b) action) \<Rightarrow> 'a list \<Rightarrow> ('s, 'b list) action" where
  "map_action f [] = ret []"
| "map_action f (x # xs) = seq (f x) (\<lambda>y. seq (map_action f xs) (\<lambda>ys. ret (y # ys)))"

section \<open>Base page (pages/base_page.py)\<close>

record BasePage =
  page :: Page
  logger :: string
  timeout :: int

definition BasePage_init :: "Settings \<Rightarrow> string \<Rightarrow> Page \<Rightarrow> BasePage" where
  "BasePage_init s class_name pg =
     \<lparr> page = pg, logger = class_name, timeout = Settings.timeout s \<rparr>"

text \<open>\<open>timeout or self.timeout\<close>: \<open>None\<close> and \<open>0\<close> both give way to the default.\<close>

definition py_or :: "int option \<Rightarrow> int \<Rightarrow> int" where
  "py_or t d = (case t of None \<Rightarrow> d | Some v \<Rightarrow> if v = 0 then d else v)"

definition log :: "level \<Rightarrow> frag list \<Rightarrow> ('a BasePage_scheme, unit) action" where
  "log lv msg self = (Inr (), self, [Log (logger self) lv msg])"


definition page_select_option :: "string \<Rightarrow> string \<Rightarrow> ('a BasePage_scheme, unit) action" where
  "page_select_option selector v self =
     (select_option_result (page self) selector v, self, [PageSelectOption selector v])"

definition locator_wait_for :: "string \<Rightarrow> string \<Rightarrow> int \<Rightarrow> ('a BasePage_scheme, unit) action" where
  "locator_wait_for selector state t self =
     (wait_for_result (page self) selector state t, self, [WaitFor selector state t])"

definition locator_text_content :: "string \<Rightarrow> int \<Rightarrow> ('a BasePage_scheme, string option) action" where
  "locator_text_content selector t self =
     (text_content_result (page self) selector t, self, [TextContent selector t])"

definition locator_all_text_contents :: "string \<Rightarrow> ('a BasePage_scheme, string list) action" where
  "locator_all_text_contents selector self =
     (Inr (all_text_contents_result (page self) selector), self, [AllTextContents selector])"

definition locator_all :: "string \<Rightarrow> ('a BasePage_scheme, locator list) action" where
  "locator_all selector self =
     (Inr (map (Nth selector) [0 ..< count_result (page self) selector]), self,
      [LocatorAll selector])"

definition locator_click :: "locator \<Rightarrow> ('a BasePage_scheme, unit) action" where
  "locator_click l self = (locator_click_result (page self) l, self, [LocatorClick l])"


definition get_text :: "string \<Rightarrow> int option \<Rightarrow> ('a BasePage_scheme, string) action" where
  "get_text selector tmo self =
     seq (locator_text_content selector (py_or tmo (timeout self)))
       (\<lambda>r. ret (case r of None \<Rightarrow> [] | Some t \<Rightarrow> t)) self"

definition is_visible :: "string \<Rightarrow> int option \<Rightarrow> ('a BasePage_scheme, bool) action" where
  "is_visible selector tmo self =
     try_except
       (seq (locator_wait_for selector ''visible'' (py_or tmo (timeout self))) (\<lambda>_. ret True))
       (\<lambda>e. ret False) self"

definition is_hidden :: "string \<Rightarrow> int option \<Rightarrow> ('a BasePage_scheme, bool) action" where
  "is_hidden selector tmo self =
     try_except
       (seq (locator_wait_for selector ''hidden'' (py_or tmo (timeout self))) (\<lambda>_. ret True))
       (\<lambda>e. ret False) self"

definition get_all_texts :: "string \<Rightarrow> ('a BasePage_scheme, string list) action" where
  "get_all_texts selector = locator_all_text_contents selector"

definition select_option :: "string \<Rightarrow> string \<Rightarrow> ('a BasePage_scheme, unit) action" where
  "select_option selector v =
     seq (log DEBUG [Str ''Selecting option '', Str [CHR 0x27], Str v, Str [CHR 0x27],
                     Str '' from '', Str selector])
       (\<lambda>_. page_select_option selector v)"

section \<open>Converting text to numbers\<close>

text \<open>
  \<open>float(s)\<close> and \<open>int(s)\<close> on a string.  Both first turn the non-ASCII spaces
  (\<open>0x85\<close>, \<open>0xA0\<close>) into a blank and any other non-ASCII character into a question
  mark, which no number contains.  White space is then what C calls \<open>isspace\<close>.
\<close>

definition is_digit :: "char \<Rightarrow> bool" where
  "is_digit c = (48 \<le> (of_char c :: nat) \<and> (of_char c :: nat) \<le> 57)"

definition digit_val :: "char \<Rightarrow> int" where
  "digit_val c = int (of_char c) - 48"

definition digits_val :: "string \<Rightarrow> int" where
  "digits_val ds = foldl (\<lambda>a c. 10 * a + digit_val c) 0 ds"

definition is_space :: "char \<Rightarrow> bool" where
  "is_space c = ((of_char c :: nat) = 32 \<or> (9 \<le> (of_char c :: nat) \<and> (of_char c :: nat) \<le> 13))"

definition to_ascii_char :: "char \<Rightarrow> char" where
  "to_ascii_char c =
     (let n = (of_char c :: nat)
      in if n < 128 then c else if n = 133 \<or> n = 160 then CHR '' '' else CHR ''?'')"

definition strip_space :: "string \<Rightarrow> string" where
  "strip_space s = rev (dropWhile is_space (rev (dropWhile is_space s)))"

text \<open>
  An underscore is allowed only between two digits (\<open>prev\<close> is the character before).
\<close>

fun underscores_ok :: "char \<Rightarrow> string \<Rightarrow> bool" where
  "underscores_ok prev [] = (prev \<noteq> CHR ''_'')"
| "underscores_ok prev (c # cs) =
     (if c = CHR ''_'' then is_digit prev \<and> underscores_ok c cs
      else (if prev = CHR ''_'' then is_digit c else True) \<and> underscores_ok c cs)"

definition split_sign :: "string \<Rightarrow> bool \<times> string" where
  "split_sign s =
     (case s of
        [] \<Rightarrow> (False, [])
      | c # cs \<Rightarrow> if c = CHR ''-'' then (True, cs) else if c = CHR ''+'' then (False, cs)
                 else (False, s))"

text \<open>
  A Python float is kept as the number its text denotes: \<open>Float q\<close> stands for the
  binary64 value nearest to \<open>q\<close>.  No arithmetic on floats is modelled.
\<close>

datatype pyfloat = Float rat | Infinity bool | NaN

definition pow10 :: "int \<Rightarrow> rat" where
  "pow10 e = (if 0 \<le> e then 10 ^ nat e else 1 / 10 ^ nat (- e))"

text \<open>
  The text of a decimal number after its sign: digits, an optional point and digits, at
  least one digit in all, then an optional exponent with at least one digit.
\<close>

definition parse_exponent :: "string \<Rightarrow> int option" where
  "parse_exponent s =
     (case s of
        [] \<Rightarrow> Some 0
      | c # cs \<Rightarrow>
          if c = CHR ''e'' \<or> c = CHR ''E''
          then (case split_sign cs of
                  (neg, ds) \<Rightarrow>
                    if ds \<noteq> [] \<and> list_all is_digit ds
                    then Some (if neg then - digits_val ds else digits_val ds)
                    else None)
          else None)"

definition parse_decimal :: "string \<Rightarrow> rat option" where
  "parse_decimal s =
     (let ip = takeWhile is_digit s; r1 = dropWhile is_digit s;
          has_point = (r1 \<noteq> [] \<and> hd r1 = CHR ''.'');
          fp = (if has_point then takeWhile is_digit (tl r1) else []);
          r2 = (if has_point then dropWhile is_digit (tl r1) else r1)
      in if ip @ fp = [] then None
         else (case parse_exponent r2 of
                 None \<Rightarrow> None
               | Some e \<Rightarrow> Some (of_int (digits_val (ip @ fp)) * pow10 (e - int (length fp)))))"

definition parse_float_body :: "string \<Rightarrow> pyfloat option" where
  "parse_float_body s =
     (case split_sign s of
        (neg, r) \<Rightarrow>
          if str_lower r = ''inf'' \<or> str_lower r = ''infinity'' then Some (Infinity neg)
          else if str_lower r = ''nan'' then Some NaN
          else (case parse_decimal r of
                  None \<Rightarrow> None
                | Some q \<Rightarrow> Some (Float (if neg then - q else q))))"

definition py_float :: "string \<Rightarrow> exn + pyfloat" where
  "py_float s =
     (let a = map to_ascii_char s
      in if \<not> underscores_ok (CHR 0x00) a then Inl ValueError
         else (case parse_float_body (strip_space (filter (\<lambda>c. c \<noteq> CHR ''_'') a)) of
                 None \<Rightarrow> Inl ValueError
               | Some x \<Rightarrow> Inr x))"

definition py_int :: "string \<Rightarrow> exn + int" where
  "py_int s =
     (case split_sign (strip_space (map to_ascii_char s)) of
        (neg, ds) \<Rightarrow>
          if ds \<noteq> [] \<and> list_all (\<lambda>c. is_digit c \<or> c = CHR ''_'') ds \<and> underscores_ok (CHR 0x00) ds
          then Inr (let v = digits_val (filter (\<lambda>c. c \<noteq> CHR ''_'') ds) in if neg then - v else v)
          else Inl ValueError)"

section \<open>Float arithmetic\<close>

text \<open>
  The arithmetic of Python's floats is a parameter of the code that computes with them:
  addition, subtraction, \<open>abs\<close>, \<open>round(x, ndigits)\<close> and the comparison \<open><\<close>.
\<close>

record FloatOps =
  fl_add :: "pyfloat \<Rightarrow> pyfloat \<Rightarrow> pyfloat"
  fl_sub :: "pyfloat \<Rightarrow> pyfloat \<Rightarrow> pyfloat"
  fl_abs :: "pyfloat \<Rightarrow> pyfloat"
  fl_round :: "pyfloat \<Rightarrow> int \<Rightarrow> pyfloat"
  fl_lt :: "pyfloat \<Rightarrow> pyfloat \<Rightarrow> bool"

text \<open>
  The instance that Python runs on: IEEE 754 binary64 with rounding to nearest, ties to
  even.  \<open>rnd64 q\<close> is the binary64 value nearest to the number \<open>q\<close>: 53 significant
  bits, the exponent of the leading bit not below \<open>-1022\<close>, and an infinity from
  \<open>2 ^ 1024\<close> on.  \<open>round(x, n)\<close> rounds the exact value of \<open>x\<close> to \<open>n\<close> decimals, ties
  to even, and takes the float nearest to that.  Zero has no sign here.
\<close>

definition pow2 :: "int \<Rightarrow> rat" where
  "pow2 e = (if 0 \<le> e then of_int (2 ^ nat e) else 1 / of_int (2 ^ nat (- e)))"

definition round_half_even :: "rat \<Rightarrow> int" where
  "round_half_even q =
     (let f = \<lfloor>q\<rfloor>; d = q - of_int f
      in if d < 1 / 2 then f else if 1 / 2 < d then f + 1 else if even f then f else f + 1)"

definition ilog2 :: "rat \<Rightarrow> int" where
  "ilog2 q =
     (case quotient_of \<bar>q\<bar> of
        (a, b) \<Rightarrow> let d = bitlen a - bitlen b in if pow2 d \<le> \<bar>q\<bar> then d else d - 1)"

definition rnd64 :: "rat \<Rightarrow> pyfloat" where
  "rnd64 q =
     (if q = 0 then Float 0
      else let e = max (ilog2 q) (- 1022); u = pow2 (e - 52);
               r = of_int (round_half_even (q / u)) * u
           in if pow2 1024 \<le> \<bar>r\<bar> then Infinity (q < 0) else Float r)"

fun val64 :: "pyfloat \<Rightarrow> pyfloat" where
  "val64 (Float q) = rnd64 q"
| "val64 x = x"

fun add64 :: "pyfloat \<Rightarrow> pyfloat \<Rightarrow> pyfloat" where
  "add64 NaN y = NaN"
| "add64 x NaN = NaN"
| "add64 (Infinity a) (Infinity b) = (if a = b then Infinity a else NaN)"
| "add64 (Infinity a) (Float y) = Infinity a"
| "add64 (Float x) (Infinity b) = Infinity b"
| "add64 (Float x) (Float y) = rnd64 (x + y)"

fun neg64 :: "pyfloat \<Rightarrow> pyfloat" where
  "neg64 (Float q) = Float (- q)"
| "neg64 (Infinity a) = Infinity (\<not> a)"
| "neg64 NaN = NaN"

fun abs64 :: "pyfloat \<Rightarrow> pyfloat" where
  "abs64 (Float q) = Float \<bar>q\<bar>"
| "abs64 (Infinity a) = Infinity False"
| "abs64 NaN = NaN"

fun round64 :: "pyfloat \<Rightarrow> int \<Rightarrow> pyfloat" where
  "round64 (Float q) n = rnd64 (of_int (round_half_even (q * pow10 n)) / pow10 n)"
| "round64 x n = x"

fun lt64 :: "pyfloat \<Rightarrow> pyfloat \<Rightarrow> bool" where
  "lt64 NaN y = False"
| "lt64 x NaN = False"
| "lt64 (Infinity a) (Infinity b) = (a \<and> \<not> b)"
| "lt64 (Infinity a) (Float y) = a"
| "lt64 (Float x) (Infinity b) = (\<not> b)"
| "lt64 (Float x) (Float y) = (x < y)"

definition binary64 :: FloatOps where
  "binary64 =
     \<lparr> fl_add = (\<lambda>x y. add64 (val64 x) (val64 y)),
       fl_sub = (\<lambda>x y. add64 (val64 x) (neg64 (val64 y))),
       fl_abs = (\<lambda>x. abs64 (val64 x)),
       fl_round = (\<lambda>x n. round64 (val64 x) n),
       fl_lt = (\<lambda>x y. lt64 (val64 x) (val64 y)) \<rparr>"

section \<open>Inventory page (pages/inventory_page.py)\<close>

record InventoryPage = BasePage +
  url :: string

definition InventoryPage_init :: "Settings \<Rightarrow> Page \<Rightarrow> InventoryPage" where
  "InventoryPage_init s pg =
     \<lparr> page = pg, logger = ''InventoryPage'', timeout = Settings.timeout s,
       url = base_url s @ ''/inventory.html'' \<rparr>"

definition INVENTORY_CONTAINER :: string where "INVENTORY_CONTAINER = ''.inventory_container''"
definition INVENTORY_ITEM_NAME :: string where "INVENTORY_ITEM_NAME = ''.inventory_item_name''"
definition INVENTORY_ITEM_PRICE :: string where "INVENTORY_ITEM_PRICE = ''.inventory_item_price''"
definition ADD_TO_CART_BUTTON :: string where \<open>ADD_TO_CART_BUTTON = ''[data-test^="add-to-cart"]''\<close>
definition REMOVE_BUTTON :: string where \<open>REMOVE_BUTTON = ''[data-test^="remove"]''\<close>
definition SHOPPING_CART_BADGE :: string where "SHOPPING_CART_BADGE = ''.shopping_cart_badge''"
definition PRODUCT_SORT_CONTAINER :: string where "PRODUCT_SORT_CONTAINER = ''.product_sort_container''"

definition SORT_NAME_ASC :: string where "SORT_NAME_ASC = ''az''"
definition SORT_NAME_DESC :: string where "SORT_NAME_DESC = ''za''"
definition SORT_PRICE_ASC :: string where "SORT_PRICE_ASC = ''lohi''"
definition SORT_PRICE_DESC :: string where "SORT_PRICE_DESC = ''hilo''"


definition InventoryPage_is_loaded :: "('a BasePage_scheme, bool) action" where
  "InventoryPage_is_loaded = is_visible INVENTORY_CONTAINER (Some 10000)"

definition get_all_product_names :: "('a BasePage_scheme, string list) action" where
  "get_all_product_names = get_all_texts INVENTORY_ITEM_NAME"

definition get_all_product_prices :: "('a BasePage_scheme, pyfloat list) action" where
  "get_all_product_prices =
     seq (get_all_texts INVENTORY_ITEM_PRICE)
       (\<lambda>price_texts. map_action (\<lambda>price. lift (py_float (str_replace ''$'' [] price))) price_texts)"



definition add_product_to_cart_by_index :: "int \<Rightarrow> ('a BasePage_scheme, unit) action" where
  "add_product_to_cart_by_index index =
     seq (log INFO [Str ''Adding product at index '', Num index, Str '' to cart''])
       (\<lambda>_. seq (locator_all ADD_TO_CART_BUTTON)
          (\<lambda>add_buttons.
             if index < int (length add_buttons)
             then seq (lift (py_getitem add_buttons index)) locator_click
             else ret ()))"

definition InventoryPage_get_cart_item_count :: "('a BasePage_scheme, int) action" where
  "InventoryPage_get_cart_item_count =
     seq (is_visible SHOPPING_CART_BADGE (Some 2000))
       (\<lambda>visible.
          if visible
          then seq (get_text SHOPPING_CART_BADGE None) (\<lambda>count_text. lift (py_int count_text))
          else ret 0)"

definition sort_products :: "string \<Rightarrow> ('a BasePage_scheme, unit) action" where
  "sort_products sort_option =
     seq (log INFO [Str ''Sorting products by: '', Str sort_option])
       (\<lambda>_. select_option PRODUCT_SORT_CONTAINER sort_option)"

definition get_product_name_by_index :: "int \<Rightarrow> ('a BasePage_scheme, string) action" where
  "get_product_name_by_index index =
     seq get_all_product_names
       (\<lambda>names. if index < int (length names) then lift (py_getitem names index) else ret [])"

definition get_product_price_by_index :: "int \<Rightarrow> ('a BasePage_scheme, pyfloat) action" where
  "get_product_price_by_index index =
     seq get_all_product_prices
       (\<lambda>prices. if index < int (length prices) then lift (py_getitem prices index)
                 else ret (Float 0))"

section \<open>Cart and checkout pages (pages/cart_page.py, pages/checkout_page.py)\<close>

record CartPage = BasePage +
  url :: string

definition CartPage_init :: "Settings \<Rightarrow> Page \<Rightarrow> CartPage" where
  "CartPage_init s pg =
     \<lparr> page = pg, logger = ''CartPage'', timeout = Settings.timeout s,
       url = base_url s @ ''/cart.html'' \<rparr>"




definition SUMMARY_SUBTOTAL :: string where "SUMMARY_SUBTOTAL = ''.summary_subtotal_label''"
definition SUMMARY_TAX :: string where "SUMMARY_TAX = ''.summary_tax_label''"
definition SUMMARY_TOTAL :: string where "SUMMARY_TOTAL = ''.summary_total_label''"

text \<open>\<open>float(text.split('$')[1])\<close>: the piece behind the first currency sign.\<close>

definition get_subtotal :: "('a BasePage_scheme, pyfloat) action" where
  "get_subtotal =
     seq (get_text SUMMARY_SUBTOTAL None)
       (\<lambda>text. seq (lift (str_split text ''$''))
          (\<lambda>pieces. seq (lift (py_getitem pieces 1)) (\<lambda>piece. lift (py_float piece))))"

definition get_tax :: "('a BasePage_scheme, pyfloat) action" where
  "get_tax =
     seq (get_text SUMMARY_TAX None)
       (\<lambda>text. seq (lift (str_split text ''$''))
          (\<lambda>pieces. seq (lift (py_getitem pieces 1)) (\<lambda>piece. lift (py_float piece))))"

definition get_total :: "('a BasePage_scheme, pyfloat) action" where
  "get_total =
     seq (get_text SUMMARY_TOTAL None)
       (\<lambda>text. seq (lift (str_split text ''$''))
          (\<lambda>pieces. seq (lift (py_getitem pieces 1)) (\<lambda>piece. lift (py_float piece))))"

definition verify_total_calculation :: "FloatOps \<Rightarrow> ('a BasePage_scheme, bool) action" where
  "verify_total_calculation fl =
     seq get_subtotal
       (\<lambda>subtotal. seq get_tax
          (\<lambda>tax. seq get_total
             (\<lambda>total.
                let calculated_total = fl_round fl (fl_add fl subtotal tax) 2
                in ret (fl_lt fl (fl_abs fl (fl_sub fl calculated_total total))
                          (Float (1 / 100))))))"


definition remove_item_by_index :: "int \<Rightarrow> ('a BasePage_scheme, unit) action" where
  "remove_item_by_index index =
     seq (log INFO [Str ''Removing item at index '', Num index])
       (\<lambda>_. seq (locator_all REMOVE_BUTTON)
          (\<lambda>remove_buttons.
             if index < int (length remove_buttons)
             then seq (lift (py_getitem remove_buttons index)) locator_click
             else ret ()))"

definition get_cart_badge_count :: "('a BasePage_scheme, int) action" where
  "get_cart_badge_count =
     seq (is_visible SHOPPING_CART_BADGE (Some 2000))
       (\<lambda>visible.
          if visible
          then seq (get_text SHOPPING_CART_BADGE None) (\<lambda>count_text. lift (py_int count_text))
          else ret 0)"

section \<open>Session fixtures (conftest.py)\<close>

text \<open>
  What the browser context, the page and the file system answer to the calls of the
  fixtures of one test.
\<close>

record Session =
  new_context_result :: "exn + unit"
  tracing_start_result :: "exn + unit"
  tracing_stop_result :: "exn + unit"
  context_close_result :: "exn + unit"
  new_page_result :: "exn + unit"
  mkdir_result :: "path \<Rightarrow> exn + unit"
  screenshot_result :: "path \<Rightarrow> exn + unit"
  page_close_result :: "exn + unit"

text \<open>
  The test item: its name, and the report of its call phase that the
  \<open>pytest_runtest_makereport\<close> hook stores as \<open>rep_call\<close>: \<open>None\<close> while the attribute
  is missing, \<open>Some failed\<close> afterwards.
\<close>

record Node =
  name :: string
  rep_call :: "bool option"






definition context_new_page :: "(Session, unit) action" where
  "context_new_page env = (new_page_result env, env, [NewPage])"






text \<open>The \<open>page\<close> fixture, before and after its \<open>yield\<close>.\<close>

definition page_setup :: "(Session, unit) action" where
  "page_setup = context_new_page"




section \<open>Test data generator (utils/test_data.py)\<close>

text \<open>
  The Faker library is not part of the repository.  It is taken as a parameter: a state
  \<open>'g\<close> of the random generator that all Faker instances of a process share, the state
  that \<open>Faker.seed(n)\<close> installs, and for each provider the text it returns for a locale
  and a generator state together with the state it leaves.
\<close>

record 'g Faker =
  fake_seed :: "int \<Rightarrow> 'g"
  fake_first_name :: "string \<Rightarrow> 'g \<Rightarrow> string \<times> 'g"
  fake_last_name :: "string \<Rightarrow> 'g \<Rightarrow> string \<times> 'g"
  fake_postcode :: "string \<Rightarrow> 'g \<Rightarrow> string \<times> 'g"
  fake_email :: "string \<Rightarrow> 'g \<Rightarrow> string \<times> 'g"
  fake_password :: "string \<Rightarrow> 'g \<Rightarrow> string \<times> 'g"

text \<open>The generator object holds its Faker instance, which is determined by its locale.\<close>

record TestDataGenerator =
  faker :: string

text \<open>\<open>locale or settings.locale\<close>: \<open>None\<close> and the empty string give way to the setting.\<close>

definition TestDataGenerator_init ::
  "'g Faker \<Rightarrow> Settings \<Rightarrow> string option \<Rightarrow> 'g \<Rightarrow> TestDataGenerator \<times> 'g" where
  "TestDataGenerator_init lib s loc g =
     (\<lparr> faker = (case loc of None \<Rightarrow> locale_name s
                 | Some l \<Rightarrow> if l = [] then locale_name s else l) \<rparr>,
      fake_seed lib 42)"

definition generate_checkout_data ::
  "'g Faker \<Rightarrow> TestDataGenerator \<Rightarrow> 'g \<Rightarrow> CheckoutData \<times> 'g" where
  "generate_checkout_data lib self g =
     (case fake_first_name lib (faker self) g of
        (fname, g1) \<Rightarrow>
          (case fake_last_name lib (faker self) g1 of
             (lname, g2) \<Rightarrow>
               (case fake_postcode lib (faker self) g2 of
                  (pcode, g3) \<Rightarrow> (\<lparr> first_name = fname, last_name = lname, postal_code = pcode \<rparr>, g3))))"

definition generate_invalid_credentials ::
  "'g Faker \<Rightarrow> TestDataGenerator \<Rightarrow> 'g \<Rightarrow> UserCredentials list \<times> 'g" where
  "generate_invalid_credentials lib self g =
     (case fake_email lib (faker self) g of
        (em, g1) \<Rightarrow>
          (case fake_password lib (faker self) g1 of
             (pw, g2) \<Rightarrow>
               ([ \<lparr> username = [], password = [], user_type = ''empty'' \<rparr>,
                  \<lparr> username = ''invalid_user'', password = ''wrong_pass'', user_type = ''invalid'' \<rparr>,
                  \<lparr> username = ''standard_user'', password = ''wrong_password'',
                    user_type = ''wrong_password'' \<rparr>,
                  \<lparr> username = [], password = ''secret_sauce'', user_type = ''empty_username'' \<rparr>,
                  \<lparr> username = ''standard_user'', password = [], user_type = ''empty_password'' \<rparr>,
                  \<lparr> username = em, password = pw, user_type = ''random'' \<rparr> ], g2)))"

text \<open>\<open>[f() for _ in range(count)]\<close>: \<open>count\<close> draws, one after the other.\<close>

fun draw :: "nat \<Rightarrow> ('g \<Rightarrow> 'a \<times> 'g) \<Rightarrow> 'g \<Rightarrow> 'a list \<times> 'g" where
  "draw 0 f g = ([], g)"
| "draw (Suc n) f g =
     (case f g of (x, g1) \<Rightarrow> (case draw n f g1 of (xs, g2) \<Rightarrow> (x # xs, g2)))"

definition generate_postal_codes ::
  "'g Faker \<Rightarrow> TestDataGenerator \<Rightarrow> int \<Rightarrow> 'g \<Rightarrow> string list \<times> 'g" where
  "generate_postal_codes lib self count g = draw (nat count) (fake_postcode lib (faker self)) g"

definition generate_names ::
  "'g Faker \<Rightarrow> TestDataGenerator \<Rightarrow> int \<Rightarrow> 'g \<Rightarrow> (string \<times> string) list \<times> 'g" where
  "generate_names lib self count g =
     draw (nat count)
       (\<lambda>g. case fake_first_name lib (faker self) g of
               (fname, g1) \<Rightarrow> (case fake_last_name lib (faker self) g1 of
                              (lname, g2) \<Rightarrow> ((fname, lname), g2))) g"

text \<open>
  A run of a process: the shared generator starts in some state \<open>g0\<close>, a
  \<open>TestDataGenerator\<close> is constructed and a sequence of its generating methods is called.
\<close>

datatype gen_call =
    GenerateCheckoutData
  | GenerateInvalidCredentials
  | GeneratePostalCodes int
  | GenerateNames int

datatype gen_result =
    Checkout CheckoutData
  | Credentials "UserCredentials list"
  | PostalCodes "string list"
  | Names "(string \<times> string) list"

fun perform :: "'g Faker \<Rightarrow> TestDataGenerator \<Rightarrow> gen_call \<Rightarrow> 'g \<Rightarrow> gen_result \<times> 'g" where
  "perform lib self GenerateCheckoutData g =
     (case generate_checkout_data lib self g of (r, g1) \<Rightarrow> (Checkout r, g1))"
| "perform lib self GenerateInvalidCredentials g =
     (case generate_invalid_credentials lib self g of (r, g1) \<Rightarrow> (Credentials r, g1))"
| "perform lib self (GeneratePostalCodes n) g =
     (case generate_postal_codes lib self n g of (r, g1) \<Rightarrow> (PostalCodes r, g1))"
| "perform lib self (GenerateNames n) g =
     (case generate_names lib self n g of (r, g1) \<Rightarrow> (Names r, g1))"

fun perform_all :: "'g Faker \<Rightarrow> TestDataGenerator \<Rightarrow> gen_call list \<Rightarrow> 'g \<Rightarrow> gen_result list \<times> 'g" where
  "perform_all lib self [] g = ([], g)"
| "perform_all lib self (c # cs) g =
     (case perform lib self c g of
        (r, g1) \<Rightarrow> (case perform_all lib self cs g1 of (rs, g2) \<Rightarrow> (r # rs, g2)))"


text \<open>
  One process with two generators, as when a test constructs one beside the module's
  global \<open>test_data\<close>.  In \<open>side_by_side\<close> both are constructed before the calls are made
  on the first and then on the second; in \<open>one_after_the_other\<close> the second is
  constructed when the first has made its calls.
\<close>

definition side_by_side ::
  "'g Faker \<Rightarrow> Settings \<Rightarrow> string option \<Rightarrow> gen_call list \<Rightarrow> 'g
     \<Rightarrow> gen_result list \<times> gen_result list" where
  "side_by_side lib s loc calls g0 =
     (case TestDataGenerator_init lib s loc g0 of
        (a, g1) \<Rightarrow>
          (case TestDataGenerator_init lib s loc g1 of
             (b, g2) \<Rightarrow>
               (case perform_all lib a calls g2 of
                  (ra, g3) \<Rightarrow> (ra, fst (perform_all lib b calls g3)))))"

definition one_after_the_other ::
  "'g Faker \<Rightarrow> Settings \<Rightarrow> string option \<Rightarrow> gen_call list \<Rightarrow> 'g
     \<Rightarrow> gen_result list \<times> gen_result list" where
  "one_after_the_other lib s loc calls g0 =
     (case TestDataGenerator_init lib s loc g0 of
        (a, g1) \<Rightarrow>
          (case perform_all lib a calls g1 of
             (ra, g2) \<Rightarrow>
               (case TestDataGenerator_init lib s loc g2 of
                  (b, g3) \<Rightarrow> (ra, fst (perform_all lib b calls g3)))))"

section \<open>Observations and sample pages\<close>

text \<open>The calls an action made, and among them the calls of the browser driver.\<close>

definition calls_of :: "'r \<times> 's \<times> call list \<Rightarrow> call list" where
  "calls_of r = snd (snd r)"

definition driver_calls :: "'r \<times> 's \<times> call list \<Rightarrow> call list" where
  "driver_calls r = filter (\<lambda>c. \<not> is_log c) (calls_of r)"

text \<open>
  A page on which nothing is found: every waiting call runs into its timeout, except the
  wait for an element to be hidden.
\<close>

definition empty_page :: Page where
  "empty_page =
     \<lparr> click_result = (\<lambda>selector t. Inl (TimeoutError ''Timeout exceeded'')),
       select_option_result = (\<lambda>selector v. Inl (TimeoutError ''Timeout exceeded'')),
       wait_for_result = (\<lambda>selector state t.
          if state = ''hidden'' then Inr () else Inl (TimeoutError ''Timeout exceeded'')),
       text_content_result = (\<lambda>selector t. Inl (TimeoutError ''Timeout exceeded'')),
       all_text_contents_result = (\<lambda>selector. []),
       count_result = (\<lambda>selector. 0),
       locator_click_result = (\<lambda>l. Inl (TimeoutError ''Timeout exceeded'')) \<rparr>"

text \<open>
  The inventory page with the given product names and price texts, as many add buttons
  as names, and a visible cart badge with the given text.
\<close>

definition catalog_page :: "string list \<Rightarrow> string list \<Rightarrow> string \<Rightarrow> Page" where
  "catalog_page names prices badge =
     \<lparr> click_result = (\<lambda>selector t. Inr ()),
       select_option_result = (\<lambda>selector v. Inr ()),
       wait_for_result = (\<lambda>selector state t.
          if state = ''visible'' \<and> (selector = INVENTORY_CONTAINER \<or> selector = SHOPPING_CART_BADGE)
          then Inr () else Inl (TimeoutError ''Timeout exceeded'')),
       text_content_result = (\<lambda>selector t.
          if selector = SHOPPING_CART_BADGE then Inr (Some badge)
          else Inl (TimeoutError ''Timeout exceeded'')),
       all_text_contents_result = (\<lambda>selector.
          if selector = INVENTORY_ITEM_NAME then names
          else if selector = INVENTORY_ITEM_PRICE then prices else []),
       count_result = (\<lambda>selector. if selector = ADD_TO_CART_BUTTON then length names else 0),
       locator_click_result = (\<lambda>l. Inr ()) \<rparr>"




text \<open>
  What a list comprehension over conversions gives: the values in order, or the first
  exception.
\<close>

fun collect :: "(exn + 'a) list \<Rightarrow> exn + 'a list" where
  "collect [] = Inr []"
| "collect (r # rs) =
     (case r of
        Inl e \<Rightarrow> Inl e
      | Inr x \<Rightarrow> (case collect rs of Inl e \<Rightarrow> Inl e | Inr xs \<Rightarrow> Inr (x # xs)))"

text \<open>The overview page of the checkout with the given three summary texts.\<close>

definition summary_page :: "string \<Rightarrow> string \<Rightarrow> string \<Rightarrow> Page" where
  "summary_page subtotal_text tax_text total_text =
     \<lparr> click_result = (\<lambda>selector t. Inr ()),
       select_option_result = (\<lambda>selector v. Inr ()),
       wait_for_result = (\<lambda>selector state t. Inr ()),
       text_content_result = (\<lambda>selector t.
          if selector = SUMMARY_SUBTOTAL then Inr (Some subtotal_text)
          else if selector = SUMMARY_TAX then Inr (Some tax_text)
          else if selector = SUMMARY_TOTAL then Inr (Some total_text)
          else Inl (TimeoutError ''Timeout exceeded'')),
       all_text_contents_result = (\<lambda>selector. []),
       count_result = (\<lambda>selector. 0),
       locator_click_result = (\<lambda>l. Inr ()) \<rparr>"

text \<open>
  A Faker whose generator state is a counter: the seed sets it, every provider returns
  a text that the counter determines and moves it on by one.
\<close>

definition counter_text :: "nat \<Rightarrow> string" where
  "counter_text g = replicate (Suc (g mod 7)) (CHR ''a'')"

definition counter_faker :: "nat Faker" where
  "counter_faker =
     \<lparr> fake_seed = (\<lambda>n. nat \<bar>n\<bar>),
       fake_first_name = (\<lambda>loc g. (counter_text g, Suc g)),
       fake_last_name = (\<lambda>loc g. (counter_text g, Suc g)),
       fake_postcode = (\<lambda>loc g. (counter_text g, Suc g)),
       fake_email = (\<lambda>loc g. (counter_text g, Suc g)),
       fake_password = (\<lambda>loc g. (counter_text g, Suc g)) \<rparr>"


section \<open>Facts about the string functions\<close>















lemma py_float_error: "py_float s = Inl e \<Longrightarrow> e = ValueError"
  by (auto simp: py_float_def Let_def split: if_splits option.splits)

lemma map_action_lift_ok:
  "list_all (\<lambda>x. f x = Inr (g x)) xs
   \<Longrightarrow> map_action (\<lambda>x. lift (f x)) xs self = (Inr (map g xs), self, [])"
  by (induction xs) (simp_all add: ret_def seq_def lift_def)

lemma map_action_lift_fail:
  "\<not> list_all (\<lambda>x. \<not> isl (f x)) xs \<Longrightarrow> (\<And>x e. f x = Inl e \<Longrightarrow> e = E)
   \<Longrightarrow> map_action (\<lambda>x. lift (f x)) xs self = (Inl E, self, [])"
proof (induction xs)
  case Nil
  then show ?case by simp
next
  case (Cons x xs)
  show ?case
  proof (cases "f x")
    case (Inl e)
    with Cons.prems(2) have "e = E" by blast
    with Inl show ?thesis by (simp add: seq_def lift_def)
  next
    case (Inr y)
    with Cons.prems(1) have "\<not> list_all (\<lambda>x. \<not> isl (f x)) xs" by simp
    from Cons.IH [OF this Cons.prems(2)] Inr show ?thesis
      by (simp add: seq_def lift_def)
  qed
qed


lemma get_text_run:
  "get_text selector None self =
     (case text_content_result (page self) selector (timeout self) of
        Inl e \<Rightarrow> (Inl e, self, [TextContent selector (timeout self)])
      | Inr r \<Rightarrow> (Inr (case r of None \<Rightarrow> [] | Some t \<Rightarrow> t), self,
                  [TextContent selector (timeout self)]))"
  by (simp add: get_text_def seq_def ret_def locator_text_content_def py_or_def split: sum.splits)

lemma is_visible_run:
  "is_visible selector tmo self =
     (case wait_for_result (page self) selector ''visible'' (py_or tmo (timeout self)) of
        Inl e \<Rightarrow> (Inr False, self, [WaitFor selector ''visible'' (py_or tmo (timeout self))])
      | Inr u \<Rightarrow> (Inr True, self, [WaitFor selector ''visible'' (py_or tmo (timeout self))]))"
  by (simp add: is_visible_def try_except_def seq_def ret_def locator_wait_for_def
      split: sum.splits)

lemma is_hidden_run:
  "is_hidden selector tmo self =
     (case wait_for_result (page self) selector ''hidden'' (py_or tmo (timeout self)) of
        Inl e \<Rightarrow> (Inr False, self, [WaitFor selector ''hidden'' (py_or tmo (timeout self))])
      | Inr u \<Rightarrow> (Inr True, self, [WaitFor selector ''hidden'' (py_or tmo (timeout self))]))"
  by (simp add: is_hidden_def try_except_def seq_def ret_def locator_wait_for_def
      split: sum.splits)

lemma price_list_ok:
  assumes "list_all (\<lambda>t. py_float (str_replace ''$'' [] t) = Inr (g t))
             (all_text_contents_result (page self) selector)"
  shows "seq (get_all_texts selector)
           (\<lambda>price_texts. map_action (\<lambda>price. lift (py_float (str_replace ''$'' [] price))) price_texts)
           self
         = (Inr (map g (all_text_contents_result (page self) selector)), self,
            [AllTextContents selector])"
  using map_action_lift_ok [OF assms, of self]
  by (simp add: seq_def get_all_texts_def locator_all_text_contents_def)

lemma price_list_fail:
  assumes "\<not> list_all (\<lambda>t. \<not> isl (py_float (str_replace ''$'' [] t)))
             (all_text_contents_result (page self) selector)"
  shows "seq (get_all_texts selector)
           (\<lambda>price_texts. map_action (\<lambda>price. lift (py_float (str_replace ''$'' [] price))) price_texts)
           self
         = (Inl ValueError, self, [AllTextContents selector])"
proof -
  have "map_action (\<lambda>t. lift (py_float (str_replace ''$'' [] t)))
          (all_text_contents_result (page self) selector) self = (Inl ValueError, self, [])"
    by (rule map_action_lift_fail [OF assms]) (rule py_float_error)
  then show ?thesis
    by (simp add: seq_def get_all_texts_def locator_all_text_contents_def)
qed

lemma converts_projr:
  "list_all (\<lambda>t. \<not> isl (f t)) ts \<Longrightarrow> list_all (\<lambda>t. f t = Inr (projr (f t))) ts"
  by (induction ts) (auto simp: isl_def)






section \<open>Credential lookup\<close>

lemma dict_get_user_map_unknown:
  "ut \<notin> set get_all_user_types \<Longrightarrow> dict_get (user_map s) ut d = d"
  by (simp add: dict_get_def user_map_def get_all_user_types_def)

text \<open>
  Claim C3.  For every string \<open>ut\<close> the lookup returns a pair: it has no failing branch.
  The password is always the configured default password.  The username is the configured
  user of \<open>ut\<close> for each of the six known user types, and the standard user for every
  other string.  The generator's wrapper returns the same username and password, together
  with the user type as it was given.
\<close>

theorem get_user_credentials_lookup:
  "snd (get_user_credentials s ut) = default_password s
   \<and> (ut = ''standard'' \<longrightarrow> fst (get_user_credentials s ut) = standard_user s)
   \<and> (ut = ''locked'' \<longrightarrow> fst (get_user_credentials s ut) = locked_user s)
   \<and> (ut = ''problem'' \<longrightarrow> fst (get_user_credentials s ut) = problem_user s)
   \<and> (ut = ''performance'' \<longrightarrow> fst (get_user_credentials s ut) = performance_user s)
   \<and> (ut = ''error'' \<longrightarrow> fst (get_user_credentials s ut) = error_user s)
   \<and> (ut = ''visual'' \<longrightarrow> fst (get_user_credentials s ut) = visual_user s)
   \<and> (ut \<notin> {''standard'', ''locked'', ''problem'', ''performance'', ''error'', ''visual''}
        \<longrightarrow> fst (get_user_credentials s ut) = standard_user s)
   \<and> tdg_get_user_credentials s ut
        = \<lparr> username = fst (get_user_credentials s ut),
            password = default_password s, user_type = ut \<rparr>"
proof -
  have unknown: "fst (get_user_credentials s ut) = standard_user s"
    if "ut \<notin> {''standard'', ''locked'', ''problem'', ''performance'', ''error'', ''visual''}"
  proof -
    from that have "ut \<notin> set get_all_user_types"
      by (simp add: get_all_user_types_def)
    then show ?thesis
      by (simp add: get_user_credentials_def dict_get_user_map_unknown)
  qed
  have known: "fst (get_user_credentials s k) = v" if "map_of (user_map s) k = Some v" for k v
    using that by (simp add: get_user_credentials_def dict_get_def)
  have pw: "snd (get_user_credentials s ut) = default_password s"
    by (simp add: get_user_credentials_def)
  have tdg: "tdg_get_user_credentials s ut
        = \<lparr> username = fst (get_user_credentials s ut),
            password = default_password s, user_type = ut \<rparr>"
    by (simp add: tdg_get_user_credentials_def get_user_credentials_def)
  have k1: "fst (get_user_credentials s ''standard'') = standard_user s"
    by (rule known) (simp add: user_map_def)
  have k2: "fst (get_user_credentials s ''locked'') = locked_user s"
    by (rule known) (simp add: user_map_def)
  have k3: "fst (get_user_credentials s ''problem'') = problem_user s"
    by (rule known) (simp add: user_map_def)
  have k4: "fst (get_user_credentials s ''performance'') = performance_user s"
    by (rule known) (simp add: user_map_def)
  have k5: "fst (get_user_credentials s ''error'') = error_user s"
    by (rule known) (simp add: user_map_def)
  have k6: "fst (get_user_credentials s ''visual'') = visual_user s"
    by (rule known) (simp add: user_map_def)
  show ?thesis
    using unknown pw tdg k1 k2 k3 k4 k5 k6 by blast
qed

theorem get_user_credentials_lookup_witness:
  "get_user_credentials default_settings ''locked'' = (''locked_out_user'', ''secret_sauce'')
   \<and> ''admin'' \<notin> {''standard'', ''locked'', ''problem'', ''performance'', ''error'', ''visual''}
   \<and> get_user_credentials default_settings ''admin'' = (''standard_user'', ''secret_sauce'')"
  using get_user_credentials_lookup [of default_settings "''locked''"]
    get_user_credentials_lookup [of default_settings "''admin''"]
  by (simp add: prod_eq_iff default_settings_def)

section \<open>Action buttons\<close>


section \<open>Probes\<close>

text \<open>
  Claim C4.  For every selector and timeout, \<open>is_visible\<close> and \<open>is_hidden\<close> return a
  truth value and never raise; they make the one waiting call and leave the page object
  as it was.  They return true when the wait reaches the state within the timeout, and
  false when the wait raises, whatever the exception.  The load probe of the inventory
  page, built on \<open>is_visible\<close>, returns a truth value as well.
\<close>

theorem probes_never_raise:
  "(\<exists>b. is_visible selector tmo self
          = (Inr b, self, [WaitFor selector ''visible'' (py_or tmo (timeout self))]))
   \<and> (wait_for_result (page self) selector ''visible'' (py_or tmo (timeout self)) = Inr ()
        \<longrightarrow> fst (is_visible selector tmo self) = Inr True)
   \<and> (\<forall>e. wait_for_result (page self) selector ''visible'' (py_or tmo (timeout self)) = Inl e
        \<longrightarrow> fst (is_visible selector tmo self) = Inr False)
   \<and> (\<exists>b. is_hidden selector tmo self
          = (Inr b, self, [WaitFor selector ''hidden'' (py_or tmo (timeout self))]))
   \<and> (wait_for_result (page self) selector ''hidden'' (py_or tmo (timeout self)) = Inr ()
        \<longrightarrow> fst (is_hidden selector tmo self) = Inr True)
   \<and> (\<forall>e. wait_for_result (page self) selector ''hidden'' (py_or tmo (timeout self)) = Inl e
        \<longrightarrow> fst (is_hidden selector tmo self) = Inr False)
   \<and> (\<exists>b. fst (InventoryPage_is_loaded self) = Inr b)"
  unfolding InventoryPage_is_loaded_def is_visible_run is_hidden_run
  by (auto split: sum.splits)

theorem probes_never_raise_witness:
  "wait_for_result (page (InventoryPage_init default_settings (catalog_page [] [] ''1'')))
      INVENTORY_CONTAINER ''visible'' (py_or (Some 10000) 30000) = Inr ()
   \<and> fst (is_visible INVENTORY_CONTAINER (Some 10000)
            (InventoryPage_init default_settings (catalog_page [] [] ''1''))) = Inr True
   \<and> wait_for_result (page (InventoryPage_init default_settings empty_page))
      INVENTORY_CONTAINER ''visible'' (py_or (Some 10000) 30000)
        = Inl (TimeoutError ''Timeout exceeded'')
   \<and> fst (is_visible INVENTORY_CONTAINER (Some 10000)
            (InventoryPage_init default_settings empty_page)) = Inr False
   \<and> fst (is_hidden INVENTORY_CONTAINER (Some 10000)
            (InventoryPage_init default_settings empty_page)) = Inr True"
  using probes_never_raise [of INVENTORY_CONTAINER "Some 10000"
      "InventoryPage_init default_settings (catalog_page [] [] ''1'')"]
    probes_never_raise [of INVENTORY_CONTAINER "Some 10000"
      "InventoryPage_init default_settings empty_page"]
  by (simp add: InventoryPage_init_def default_settings_def catalog_page_def empty_page_def
      py_or_def)

section \<open>Seeded test data\<close>


section \<open>Sorting\<close>

text \<open>
  Claim C8.  For every sort option, and so for \<open>az\<close>, \<open>za\<close>, \<open>lohi\<close> and \<open>hilo\<close>,
  \<open>sort_products\<close> writes its two log records and makes one driver call, which selects
  the option as it was given in the sort control; it reads nothing from the page, returns
  what the driver returned and leaves the page object (page, logger, timeout and any
  further field) as it was.
\<close>

theorem sort_products_dispatch:
  "sort_products sort_option self =
     (select_option_result (page self) PRODUCT_SORT_CONTAINER sort_option, self,
      [Log (logger self) INFO [Str ''Sorting products by: '', Str sort_option],
       Log (logger self) DEBUG
         [Str ''Selecting option '', Str [CHR 0x27], Str sort_option, Str [CHR 0x27],
          Str '' from '', Str PRODUCT_SORT_CONTAINER],
       PageSelectOption PRODUCT_SORT_CONTAINER sort_option])
   \<and> driver_calls (sort_products sort_option self)
        = [PageSelectOption ''.product_sort_container'' sort_option]"
  by (simp add: sort_products_def select_option_def seq_def log_def page_select_option_def
      driver_calls_def calls_of_def PRODUCT_SORT_CONTAINER_def split: sum.splits)

section \<open>Failure artifacts\<close>



section \<open>Prices\<close>




section \<open>Index-based operations\<close>

text \<open>
  Claim C9, amended.  For every index that is at least the number of matching elements:
  \<open>get_product_name_by_index\<close> returns the empty string; \<open>add_product_to_cart_by_index\<close>
  and \<open>remove_item_by_index\<close> log, list the buttons, click nothing and return;
  \<open>get_product_price_by_index\<close> returns 0.0 when every price text of the page converts
  to a float once its \<open>$\<close> is deleted, and raises \<open>ValueError\<close> otherwise, because it
  converts all price texts before it looks at the index.
\<close>

theorem index_out_of_range:
  "(int (length (all_text_contents_result (page self) INVENTORY_ITEM_NAME)) \<le> i
      \<longrightarrow> get_product_name_by_index i self
            = (Inr [], self, [AllTextContents INVENTORY_ITEM_NAME]))
   \<and> (int (length (all_text_contents_result (page self) INVENTORY_ITEM_PRICE)) \<le> i
      \<longrightarrow> get_product_price_by_index i self
            = (if list_all (\<lambda>t. \<not> isl (py_float (str_replace ''$'' [] t)))
                    (all_text_contents_result (page self) INVENTORY_ITEM_PRICE)
               then Inr (Float 0) else Inl ValueError,
               self, [AllTextContents INVENTORY_ITEM_PRICE]))
   \<and> (int (count_result (page self) ADD_TO_CART_BUTTON) \<le> i
      \<longrightarrow> add_product_to_cart_by_index i self
            = (Inr (), self,
               [Log (logger self) INFO [Str ''Adding product at index '', Num i, Str '' to cart''],
                LocatorAll ADD_TO_CART_BUTTON]))
   \<and> (int (count_result (page self) REMOVE_BUTTON) \<le> i
      \<longrightarrow> remove_item_by_index i self
            = (Inr (), self,
               [Log (logger self) INFO [Str ''Removing item at index '', Num i],
                LocatorAll REMOVE_BUTTON]))"
proof -
  let ?texts = "all_text_contents_result (page self) INVENTORY_ITEM_PRICE"
  let ?f = "\<lambda>t. py_float (str_replace ''$'' [] t)"
  have name: "get_product_name_by_index i self
            = (Inr [], self, [AllTextContents INVENTORY_ITEM_NAME])"
    if "int (length (all_text_contents_result (page self) INVENTORY_ITEM_NAME)) \<le> i"
    using that
    by (simp add: get_product_name_by_index_def get_all_product_names_def get_all_texts_def
        locator_all_text_contents_def seq_def ret_def)
  have price: "get_product_price_by_index i self
            = (if list_all (\<lambda>t. \<not> isl (?f t)) ?texts then Inr (Float 0) else Inl ValueError,
               self, [AllTextContents INVENTORY_ITEM_PRICE])"
    if le: "int (length ?texts) \<le> i"
  proof (cases "list_all (\<lambda>t. \<not> isl (?f t)) ?texts")
    case True
    have "get_all_product_prices self
        = (Inr (map (\<lambda>t. projr (?f t)) ?texts), self, [AllTextContents INVENTORY_ITEM_PRICE])"
      unfolding get_all_product_prices_def
      by (rule price_list_ok) (rule converts_projr [OF True])
    with le True show ?thesis
      by (simp add: get_product_price_by_index_def seq_def ret_def)
  next
    case False
    have "get_all_product_prices self
        = (Inl ValueError, self, [AllTextContents INVENTORY_ITEM_PRICE])"
      unfolding get_all_product_prices_def by (rule price_list_fail [OF False])
    with False show ?thesis
      by (simp add: get_product_price_by_index_def seq_def)
  qed
  have add: "add_product_to_cart_by_index i self
            = (Inr (), self,
               [Log (logger self) INFO [Str ''Adding product at index '', Num i, Str '' to cart''],
                LocatorAll ADD_TO_CART_BUTTON])"
    if "int (count_result (page self) ADD_TO_CART_BUTTON) \<le> i"
    using that
    by (simp add: add_product_to_cart_by_index_def seq_def ret_def log_def locator_all_def)
  have remove: "remove_item_by_index i self
            = (Inr (), self,
               [Log (logger self) INFO [Str ''Removing item at index '', Num i],
                LocatorAll REMOVE_BUTTON])"
    if "int (count_result (page self) REMOVE_BUTTON) \<le> i"
    using that
    by (simp add: remove_item_by_index_def seq_def ret_def log_def locator_all_def)
  from name price add remove show ?thesis by blast
qed

theorem index_out_of_range_witness:
  "int (length (all_text_contents_result
          (page (InventoryPage_init default_settings
                   (catalog_page [''Sauce Labs Backpack'', ''Sauce Labs Bike Light'']
                      [''$29.99'', ''$9.99''] ''1'')))
          INVENTORY_ITEM_PRICE)) \<le> 2
   \<and> fst (get_product_name_by_index 2
            (InventoryPage_init default_settings
               (catalog_page [''Sauce Labs Backpack'', ''Sauce Labs Bike Light'']
                  [''$29.99'', ''$9.99''] ''1''))) = Inr []
   \<and> fst (get_product_price_by_index 2
            (InventoryPage_init default_settings
               (catalog_page [''Sauce Labs Backpack'', ''Sauce Labs Bike Light'']
                  [''$29.99'', ''$9.99''] ''1''))) = Inr (Float 0)
   \<and> calls_of (add_product_to_cart_by_index 2
            (InventoryPage_init default_settings
               (catalog_page [''Sauce Labs Backpack'', ''Sauce Labs Bike Light'']
                  [''$29.99'', ''$9.99''] ''1'')))
       = [Log ''InventoryPage'' INFO [Str ''Adding product at index '', Num 2, Str '' to cart''],
          LocatorAll ADD_TO_CART_BUTTON]
   \<and> fst (remove_item_by_index 0
            (InventoryPage_init default_settings
               (catalog_page [''Sauce Labs Backpack'', ''Sauce Labs Bike Light'']
                  [''$29.99'', ''$9.99''] ''1''))) = Inr ()"
proof -
  have f1: "py_float ''29.99'' = Inr (Float (2999 / 100))" by code_simp
  have f2: "py_float ''9.99'' = Inr (Float (999 / 100))" by code_simp
  show ?thesis
    using index_out_of_range [of "InventoryPage_init default_settings
               (catalog_page [''Sauce Labs Backpack'', ''Sauce Labs Bike Light'']
                  [''$29.99'', ''$9.99''] ''1'')" 2]
      index_out_of_range [of "InventoryPage_init default_settings
               (catalog_page [''Sauce Labs Backpack'', ''Sauce Labs Bike Light'']
                  [''$29.99'', ''$9.99''] ''1'')" 0]
    by (simp add: InventoryPage_init_def catalog_page_def INVENTORY_ITEM_PRICE_def
        INVENTORY_ITEM_NAME_def ADD_TO_CART_BUTTON_def REMOVE_BUTTON_def calls_of_def f1 f2)
qed

text \<open>
  One price element reading \<open>Sold out\<close>: index 5 is beyond the one price of the page,
  and \<open>get_product_price_by_index\<close> raises \<open>ValueError\<close> instead of returning 0.0.
\<close>

theorem price_by_index_counterexample:
  "int (length (all_text_contents_result
          (page (InventoryPage_init default_settings
                   (catalog_page [''Sauce Labs Backpack''] [''Sold out''] ''1'')))
          INVENTORY_ITEM_PRICE)) \<le> 5
   \<and> fst (get_product_price_by_index 5
            (InventoryPage_init default_settings
               (catalog_page [''Sauce Labs Backpack''] [''Sold out''] ''1'')))
       = Inl ValueError"
proof -
  have f: "py_float ''Sold out'' = Inl ValueError" by code_simp
  show ?thesis
    by (simp add: get_product_price_by_index_def get_all_product_prices_def seq_def
        get_all_texts_def locator_all_text_contents_def lift_def ret_def
        InventoryPage_init_def catalog_page_def INVENTORY_ITEM_PRICE_def
        INVENTORY_ITEM_NAME_def f)
qed

section \<open>Cart badge\<close>

text \<open>
  Claim C10.  Both badge queries probe the badge with a timeout of 2000 ms.  When the
  probe fails, for whatever reason, they return 0 after that one driver call and do not
  raise.  When the probe succeeds, they read the text of the badge with the default
  timeout and return \<open>int\<close> of it (of the empty string when the badge has no text): the
  number it denotes, or the exception that the read or the conversion raises.
\<close>

theorem badge_count:
  "(\<forall>e. wait_for_result (page self) SHOPPING_CART_BADGE ''visible'' 2000 = Inl e
        \<longrightarrow> InventoryPage_get_cart_item_count self
              = (Inr 0, self, [WaitFor SHOPPING_CART_BADGE ''visible'' 2000]))
   \<and> (wait_for_result (page self) SHOPPING_CART_BADGE ''visible'' 2000 = Inr ()
        \<longrightarrow> fst (InventoryPage_get_cart_item_count self)
              = (case text_content_result (page self) SHOPPING_CART_BADGE (timeout self) of
                   Inl e \<Rightarrow> Inl e
                 | Inr None \<Rightarrow> py_int []
                 | Inr (Some t) \<Rightarrow> py_int t))
   \<and> get_cart_badge_count self = InventoryPage_get_cart_item_count self"
  by (auto simp add: InventoryPage_get_cart_item_count_def get_cart_badge_count_def
      seq_def ret_def lift_def is_visible_run get_text_run py_or_def
      split: sum.splits option.splits)

theorem badge_count_witness:
  "wait_for_result (page (InventoryPage_init default_settings empty_page))
       SHOPPING_CART_BADGE ''visible'' 2000 = Inl (TimeoutError ''Timeout exceeded'')
   \<and> fst (InventoryPage_get_cart_item_count (InventoryPage_init default_settings empty_page)) = Inr 0
   \<and> wait_for_result (page (InventoryPage_init default_settings (catalog_page [] [] ''2'')))
       SHOPPING_CART_BADGE ''visible'' 2000 = Inr ()
   \<and> fst (InventoryPage_get_cart_item_count
            (InventoryPage_init default_settings (catalog_page [] [] ''2''))) = Inr 2"
proof -
  have i2: "py_int ''2'' = Inr 2" by code_simp
  show ?thesis
    using badge_count [of "InventoryPage_init default_settings empty_page"]
      badge_count [of "InventoryPage_init default_settings (catalog_page [] [] ''2'')"]
    by (simp add: InventoryPage_init_def default_settings_def catalog_page_def empty_page_def
        SHOPPING_CART_BADGE_def INVENTORY_CONTAINER_def i2)
qed

end
